theory Spec2Isabelle
  imports Complex_Main
begin

section \<open>The 4x4 matrix algebra of GLprimer.cpp\<close>

text \<open>
  A matrix is a \<^verbatim>\<open>std::array<float, 16>\<close>: sixteen scalars in column-major order, the
  entry of column \<open>c\<close> and row \<open>r\<close> at index \<open>c * 4 + r\<close>. It is modelled as a list
  that is read by index, as the source reads the array.

  The scalar type \<^verbatim>\<open>float\<close> is read in two ways. The functions that only place, add
  and multiply scalars are polymorphic in the scalar type: what is proved of their index
  structure holds for every arithmetic, and they can be run on the real numbers (exact
  arithmetic, the reading of the geometric statements) as well as on the binary32 numbers
  of the last part of the definitions (the arithmetic of \<^verbatim>\<open>float\<close> itself, the reading
  of the statements about exact equality of computed arrays). The rotations and the
  projection call \<^verbatim>\<open>cos\<close>, \<^verbatim>\<open>sin\<close> and \<^verbatim>\<open>tan\<close>, which have no binary32
  counterpart here, and are stated over the real numbers.
\<close>

definition mat4mult :: "'a::{plus,times} list \<Rightarrow> 'a list \<Rightarrow> 'a list" where
  "mat4mult m1 m2 =
    [ m1 ! 0 * m2 ! 0 + m1 ! 4 * m2 ! 1 + m1 ! 8 * m2 ! 2 + m1 ! 12 * m2 ! 3,
      m1 ! 1 * m2 ! 0 + m1 ! 5 * m2 ! 1 + m1 ! 9 * m2 ! 2 + m1 ! 13 * m2 ! 3,
      m1 ! 2 * m2 ! 0 + m1 ! 6 * m2 ! 1 + m1 ! 10 * m2 ! 2 + m1 ! 14 * m2 ! 3,
      m1 ! 3 * m2 ! 0 + m1 ! 7 * m2 ! 1 + m1 ! 11 * m2 ! 2 + m1 ! 15 * m2 ! 3,

      m1 ! 0 * m2 ! 4 + m1 ! 4 * m2 ! 5 + m1 ! 8 * m2 ! 6 + m1 ! 12 * m2 ! 7,
      m1 ! 1 * m2 ! 4 + m1 ! 5 * m2 ! 5 + m1 ! 9 * m2 ! 6 + m1 ! 13 * m2 ! 7,
      m1 ! 2 * m2 ! 4 + m1 ! 6 * m2 ! 5 + m1 ! 10 * m2 ! 6 + m1 ! 14 * m2 ! 7,
      m1 ! 3 * m2 ! 4 + m1 ! 7 * m2 ! 5 + m1 ! 11 * m2 ! 6 + m1 ! 15 * m2 ! 7,

      m1 ! 0 * m2 ! 8 + m1 ! 4 * m2 ! 9 + m1 ! 8 * m2 ! 10 + m1 ! 12 * m2 ! 11,
      m1 ! 1 * m2 ! 8 + m1 ! 5 * m2 ! 9 + m1 ! 9 * m2 ! 10 + m1 ! 13 * m2 ! 11,
      m1 ! 2 * m2 ! 8 + m1 ! 6 * m2 ! 9 + m1 ! 10 * m2 ! 10 + m1 ! 14 * m2 ! 11,
      m1 ! 3 * m2 ! 8 + m1 ! 7 * m2 ! 9 + m1 ! 11 * m2 ! 10 + m1 ! 15 * m2 ! 11,

      m1 ! 0 * m2 ! 12 + m1 ! 4 * m2 ! 13 + m1 ! 8 * m2 ! 14 + m1 ! 12 * m2 ! 15,
      m1 ! 1 * m2 ! 12 + m1 ! 5 * m2 ! 13 + m1 ! 9 * m2 ! 14 + m1 ! 13 * m2 ! 15,
      m1 ! 2 * m2 ! 12 + m1 ! 6 * m2 ! 13 + m1 ! 10 * m2 ! 14 + m1 ! 14 * m2 ! 15,
      m1 ! 3 * m2 ! 12 + m1 ! 7 * m2 ! 13 + m1 ! 11 * m2 ! 14 + m1 ! 15 * m2 ! 15 ]"

definition mat4identity :: "'a::{zero,one} list" where
  "mat4identity =
    [ 1, 0, 0, 0,
      0, 1, 0, 0,
      0, 0, 1, 0,
      0, 0, 0, 1 ]"

definition mat4rotx :: "real \<Rightarrow> real list" where
  "mat4rotx angle =
    [ 1, 0, 0, 0,
      0, cos angle, sin angle, 0,
      0, - sin angle, cos angle, 0,
      0, 0, 0, 1 ]"

definition mat4roty :: "real \<Rightarrow> real list" where
  "mat4roty angle =
    [ cos angle, 0, sin angle, 0,
      0, 1, 0, 0,
      - sin angle, 0, cos angle, 0,
      0, 0, 0, 1 ]"

definition mat4rotz :: "real \<Rightarrow> real list" where
  "mat4rotz angle =
    [ cos angle, sin angle, 0, 0,
      - sin angle, cos angle, 0, 0,
      0, 0, 1, 0,
      0, 0, 0, 1 ]"

definition mat4scale :: "'a::{zero,one} \<Rightarrow> 'a list" where
  "mat4scale scale =
    [ scale, 0, 0, 0,
      0, scale, 0, 0,
      0, 0, scale, 0,
      0, 0, 0, 1 ]"

definition mat4translate :: "'a::{zero,one} \<Rightarrow> 'a \<Rightarrow> 'a \<Rightarrow> 'a list" where
  "mat4translate x y z =
    [ 1, 0, 0, 0,
      0, 1, 0, 0,
      0, 0, 1, 0,
      x, y, z, 1 ]"

definition mat4perspective :: "real \<Rightarrow> real \<Rightarrow> real \<Rightarrow> real \<Rightarrow> real list" where
  "mat4perspective vfov aspect znear zfar =
    (let f = 1 / tan (vfov / 2) in
     [ f / aspect, 0, 0, 0,
       0, f, 0, 0,
       0, 0, - ((zfar + znear) / (zfar - znear)), - 1,
       0, 0, - ((2 * znear * zfar) / (zfar - znear)), 0 ])"

subsection \<open>Applying a matrix to a column vector\<close>

text \<open>
  The source never multiplies a matrix with a vector: that happens in the vertex shader,
  outside \<^verbatim>\<open>GLprimer.cpp\<close>. The two definitions below are
  Modelled from the spec: the column-vector convention \<open>v' = M * v\<close> of its data
  model, on the column-major layout, and the perspective divide of clip coordinates by
  their \<open>w\<close> component.
\<close>

definition mat4apply :: "'a::{plus,times} list \<Rightarrow> 'a list \<Rightarrow> 'a list" where
  \<comment> \<open>Modelled from the spec: the vertex shader's product of a matrix and a column vector.\<close>
  "mat4apply m v =
    [ m ! 0 * v ! 0 + m ! 4 * v ! 1 + m ! 8 * v ! 2 + m ! 12 * v ! 3,
      m ! 1 * v ! 0 + m ! 5 * v ! 1 + m ! 9 * v ! 2 + m ! 13 * v ! 3,
      m ! 2 * v ! 0 + m ! 6 * v ! 1 + m ! 10 * v ! 2 + m ! 14 * v ! 3,
      m ! 3 * v ! 0 + m ! 7 * v ! 1 + m ! 11 * v ! 2 + m ! 15 * v ! 3 ]"

definition perspective_divide :: "real list \<Rightarrow> real list" where
  \<comment> \<open>Modelled from the spec: the division of clip coordinates by \<open>w\<close> after projection.\<close>
  "perspective_divide v = [v ! 0 / v ! 3, v ! 1 / v ! 3, v ! 2 / v ! 3]"

definition column :: "'a list \<Rightarrow> nat \<Rightarrow> 'a list" where
  "column m c = [m ! (c * 4 + 0), m ! (c * 4 + 1), m ! (c * 4 + 2), m ! (c * 4 + 3)]"

definition affine :: "'a::{zero,one} list \<Rightarrow> bool" where
  "affine m \<longleftrightarrow> m ! 3 = 0 \<and> m ! 7 = 0 \<and> m ! 11 = 0 \<and> m ! 15 = 1"


section \<open>The frame composer: one pass of the rendering loop\<close>

text \<open>
  What one pass of the loop of \<^verbatim>\<open>main\<close> reads: the time of \<^verbatim>\<open>glfwGetTime\<close>, the
  angles of the two rotators after their \<^verbatim>\<open>poll\<close>, and the window's size of
  \<^verbatim>\<open>glfwGetWindowSize\<close>.
\<close>

record frame_context =
  time :: real
  phiKey :: real
  thetaKey :: real
  phiMouse :: real
  thetaMouse :: real
  width :: int
  height :: int

text \<open>
  What the pass hands to OpenGL: the rectangle of \<^verbatim>\<open>glViewport\<close> and the matrices of
  its four \<^verbatim>\<open>glUniformMatrix4fv\<close> calls, in the order of the calls: \<^verbatim>\<open>MV\<close> before
  the first mesh is rendered, \<^verbatim>\<open>MV\<close> before the sphere is rendered, \<^verbatim>\<open>T\<close> and
  \<^verbatim>\<open>P\<close>.
\<close>

record frame_matrices =
  viewport :: "int \<times> int \<times> int \<times> int"
  MV_trex :: "real list"
  MV_sphere :: "real list"
  T_illumination :: "real list"
  P_projection :: "real list"

text \<open>
  The source assigns \<^verbatim>\<open>vRot\<close> and \<^verbatim>\<open>rSpin\<close> twice; the second values are \<open>vRot2\<close>
  and \<open>rSpin2\<close> here. \<^verbatim>\<open>M_PI\<close> is \<open>pi\<close>, and the literals \<^verbatim>\<open>0.8f\<close> and
  \<^verbatim>\<open>0.1f\<close> are the fractions they denote.
\<close>

definition frame :: "frame_context \<Rightarrow> frame_matrices" where
  "frame cx =
    (let matKey = mat4mult (mat4rotz (- phiKey cx)) (mat4rotx (- thetaKey cx));
         matMouse = mat4mult (mat4rotz (phiMouse cx)) (mat4rotx (- thetaMouse cx));
         vTranslate = mat4translate 0 0 (- 3);
         vRot = mat4rotx (10 * (pi / 100));
         rSpin = mat4mult (mat4mult (mat4mult vTranslate (mat4roty 1)) vRot) matKey;
         vRot2 = mat4rotx (5 * (pi / 100));
         vOrbit = mat4roty (time cx / 4 * pi);
         cT = mat4translate 0 0 (8 / 10);
         matO = mat4mult (mat4mult vOrbit cT) vRot2;
         rSpin2 = mat4mult (mat4mult (mat4mult vTranslate (mat4roty (time cx / 4 * pi))) vRot2) matO;
         Ilumination = mat4mult matMouse mat4identity;
         P = mat4perspective (pi / 3) 1 (1 / 10) 100
     in \<lparr> viewport = (0, 0, width cx, height cx),
          MV_trex = rSpin, MV_sphere = rSpin2,
          T_illumination = Ilumination, P_projection = P \<rparr>)"



section \<open>The arithmetic of float: binary32\<close>

text \<open>
  On the platforms the source names (Windows, MacOS X, Linux) \<^verbatim>\<open>float\<close> is the binary32
  format of IEEE 754. A value is a NaN, an infinity with its sign, or a finite number
  \<open>(-1)^s * m * 2^e\<close> (\<open>Finite s m e\<close>, the sign \<open>s\<close> true for negative numbers).
  \<open>finite32\<close> holds of the encodings of the format: \<open>m < 2^24\<close>, and either
  \<open>e = - 149\<close> (zeros, subnormal numbers and the smallest normal binade) or
  \<open>2^23 \<le> m\<close> and \<open>e \<le> 104\<close>. Every finite number has one such encoding, so two
  finite values are the same bit pattern exactly when they are equal as terms.
\<close>

datatype f32 = Finite bool nat int | Infinity bool | NaN

fun finite32 :: "f32 \<Rightarrow> bool" where
  "finite32 (Finite s m e) \<longleftrightarrow>
     m < 2 ^ 24 \<and> (e = - 149 \<or> (2 ^ 23 \<le> m \<and> - 149 < e \<and> e \<le> 104))"
| "finite32 x \<longleftrightarrow> False"

fun zero32 :: "f32 \<Rightarrow> bool" where
  "zero32 (Finite s m e) \<longleftrightarrow> m = 0 \<and> e = - 149"
| "zero32 x \<longleftrightarrow> False"

text \<open>The number of binary digits of a natural number.\<close>

fun bitlength :: "nat \<Rightarrow> nat" where
  "bitlength n = (if n = 0 then 0 else Suc (bitlength (n div 2)))"

declare bitlength.simps [simp del]

text \<open>
  Rounding to nearest, ties to even, of the exact number \<open>(-1)^s * m * 2^e\<close>: the
  mantissa is cut to 24 digits (fewer below the normal range), the digits cut off decide
  the direction, and a result beyond the largest finite number is an infinity.
\<close>

definition pack32 :: "bool \<Rightarrow> nat \<Rightarrow> int \<Rightarrow> f32" where
  "pack32 s m e =
    (if m = 2 ^ 24 then (if 104 < e + 1 then Infinity s else Finite s (2 ^ 23) (e + 1))
     else if 104 < e then Infinity s
     else Finite s m e)"

definition round32 :: "bool \<Rightarrow> nat \<Rightarrow> int \<Rightarrow> f32" where
  "round32 s m e =
    (if m = 0 then Finite s 0 (- 149)
     else
       let e' = max (e + int (bitlength m) - 24) (- 149) in
       if e' \<le> e then pack32 s (m * 2 ^ nat (e - e')) e'
       else
         let d = nat (e' - e); q = m div 2 ^ d; r = m mod 2 ^ d; h = 2 ^ (d - 1)
         in pack32 s (if h < r \<or> (r = h \<and> odd q) then q + 1 else q) e')"

definition signed :: "bool \<Rightarrow> nat \<Rightarrow> int" where
  "signed s m = (if s then - int m else int m)"

text \<open>
  The operations of \<^verbatim>\<open>float\<close> that the matrix functions use: the literals
  \<^verbatim>\<open>0.0f\<close> and \<^verbatim>\<open>1.0f\<close>, \<^verbatim>\<open>*\<close>, \<^verbatim>\<open>+\<close> and the unary \<^verbatim>\<open>-\<close>. A product or a sum
  is the exact result, rounded; an exact sum of zero is \<open>-0\<close> only when both summands are
  negative zeros; \<open>0 * infinity\<close> and \<open>infinity - infinity\<close> are NaN.
\<close>

instantiation f32 :: "{zero,one,plus,times,uminus}"
begin

definition zero_f32 :: f32 where
  "zero_f32 = Finite False 0 (- 149)"

definition one_f32 :: f32 where
  "one_f32 = Finite False (2 ^ 23) (- 23)"

fun times_f32 :: "f32 \<Rightarrow> f32 \<Rightarrow> f32" where
  "times_f32 NaN y = NaN"
| "times_f32 x NaN = NaN"
| "times_f32 (Infinity s1) (Infinity s2) = Infinity (s1 \<noteq> s2)"
| "times_f32 (Infinity s1) (Finite s2 m2 e2) = (if m2 = 0 then NaN else Infinity (s1 \<noteq> s2))"
| "times_f32 (Finite s1 m1 e1) (Infinity s2) = (if m1 = 0 then NaN else Infinity (s1 \<noteq> s2))"
| "times_f32 (Finite s1 m1 e1) (Finite s2 m2 e2) = round32 (s1 \<noteq> s2) (m1 * m2) (e1 + e2)"

fun plus_f32 :: "f32 \<Rightarrow> f32 \<Rightarrow> f32" where
  "plus_f32 NaN y = NaN"
| "plus_f32 x NaN = NaN"
| "plus_f32 (Infinity s1) (Infinity s2) = (if s1 = s2 then Infinity s1 else NaN)"
| "plus_f32 (Infinity s1) (Finite s2 m2 e2) = Infinity s1"
| "plus_f32 (Finite s1 m1 e1) (Infinity s2) = Infinity s2"
| "plus_f32 (Finite s1 m1 e1) (Finite s2 m2 e2) =
    (let e = min e1 e2;
         i = signed s1 (m1 * 2 ^ nat (e1 - e)) + signed s2 (m2 * 2 ^ nat (e2 - e))
     in if i = 0 then Finite (s1 \<and> s2) 0 (- 149)
        else round32 (i < 0) (nat \<bar>i\<bar>) e)"

fun uminus_f32 :: "f32 \<Rightarrow> f32" where
  "uminus_f32 NaN = NaN"
| "uminus_f32 (Infinity s) = Infinity (\<not> s)"
| "uminus_f32 (Finite s m e) = Finite (\<not> s) m e"

instance ..

end

text \<open>
  The comparison \<^verbatim>\<open>==\<close> of two floats: a NaN equals nothing, the two zeros are equal,
  and any other two values are equal when they are the same value. \<^verbatim>\<open>==\<close> on two
  \<^verbatim>\<open>std::array\<close>s compares them entry by entry: \<open>list_all2 eq32\<close>.
\<close>

fun eq32 :: "f32 \<Rightarrow> f32 \<Rightarrow> bool" where
  "eq32 (Finite s1 m1 e1) (Finite s2 m2 e2) \<longleftrightarrow>
     (m1 = 0 \<and> m2 = 0) \<or> (s1 = s2 \<and> m1 = m2 \<and> e1 = e2)"
| "eq32 (Infinity s1) (Infinity s2) \<longleftrightarrow> s1 = s2"
| "eq32 x y \<longleftrightarrow> False"

definition same32 :: "f32 \<Rightarrow> f32 \<Rightarrow> bool" where
  "same32 x y \<longleftrightarrow> finite32 x \<and> finite32 y \<and> eq32 x y"

definition affine32 :: "f32 list \<Rightarrow> bool" where
  "affine32 m \<longleftrightarrow> eq32 (m ! 3) 0 \<and> eq32 (m ! 7) 0 \<and> eq32 (m ! 11) 0 \<and> eq32 (m ! 15) 1"

text \<open>
  The sum of a list of terms, added from left to right as C++ evaluates
  \<^verbatim>\<open>t0 + t1 + t2 + t3\<close>.
\<close>

fun sum_in_order :: "'a::{zero,plus} list \<Rightarrow> 'a" where
  "sum_in_order [] = 0"
| "sum_in_order (x # xs) = foldl (+) x xs"


section \<open>Properties of the matrix product\<close>

lemma mat4mult_length: "length (mat4mult a b) = 16"
  by (simp add: mat4mult_def)

lemma lt4_cases: "(n::nat) < 4 \<Longrightarrow> n = 0 \<or> n = 1 \<or> n = 2 \<or> n = 3"
  by arith

text \<open>
  Every entry of the product, with the four terms added in the order in which the source
  adds them. Nothing is assumed of \<open>+\<close> and \<open>*\<close>.
\<close>

lemma mat4mult_entry:
  fixes a b :: "'a::{plus,times} list"
  assumes "c < 4" and "r < 4"
  shows "mat4mult a b ! (c * 4 + r) =
     a ! (0 * 4 + r) * b ! (c * 4 + 0) + a ! (1 * 4 + r) * b ! (c * 4 + 1)
   + a ! (2 * 4 + r) * b ! (c * 4 + 2) + a ! (3 * 4 + r) * b ! (c * 4 + 3)"
  using lt4_cases[OF assms(1)] lt4_cases[OF assms(2)]
  by (elim disjE) (simp_all add: mat4mult_def numeral_2_eq_2[symmetric])

lemma mat4mult_column:
  fixes a b :: "'a::{plus,times} list"
  assumes "c < 4"
  shows "column (mat4mult a b) c = mat4apply a (column b c)"
  using lt4_cases[OF assms]
  by (elim disjE) (simp_all add: column_def mat4apply_def mat4mult_def numeral_2_eq_2[symmetric])

lemma upt_0_4: "[0..<4] = [0, 1, 2, 3]"
  by (simp add: upt_rec)

lemma sum_in_order_4: "sum_in_order (map g [0..<4]) = g 0 + g 1 + g 2 + g 3"
  by (simp add: upt_0_4)

text \<open>In exact arithmetic the sum in order is the sum.\<close>

lemma sum_in_order_exact:
  "sum_in_order (map g [0..<4]) = (\<Sum>k<(4::nat). (g k :: 'a::comm_monoid_add))"
  by (simp add: upt_0_4 numeral_eq_Suc lessThan_Suc add.commute add.left_commute)

text \<open>
  Claim C1. \<open>mat4mult\<close> is the product of 4x4 matrices in column-major layout: the
  result has sixteen entries, its entry at index \<open>c * 4 + r\<close> is the sum over \<open>k\<close> of
  \<open>a[k * 4 + r] * b[c * 4 + k]\<close>, and its column \<open>c\<close> is \<open>a\<close> applied to column \<open>c\<close>
  of \<open>b\<close>. The sum is taken in the order \<open>k = 0, 1, 2, 3\<close>, and nothing is assumed of
  the arithmetic: the statement holds of real and of binary32 entries alike.
\<close>

theorem mat4mult_is_matrix_product:
  fixes a b :: "'a::{zero,plus,times} list"
  assumes "c < 4" and "r < 4"
  shows "length (mat4mult a b) = 16
    \<and> mat4mult a b ! (c * 4 + r)
        = sum_in_order (map (\<lambda>k. a ! (k * 4 + r) * b ! (c * 4 + k)) [0..<4])
    \<and> column (mat4mult a b) c = mat4apply a (column b c)"
  using assms by (simp add: mat4mult_length mat4mult_entry mat4mult_column sum_in_order_4)

theorem mat4mult_is_matrix_product_witness:
  "(2::nat) < 4 \<and> (1::nat) < 4
   \<and> mat4mult [1, 2, 3, 4, 5, 6, 7, 8, 9, 10, 11, 12, 13, 14, 15, 16]
               [1, 0, 2, 0, 0, 1, 0, 3, 1, 1, 1, 1, 0, 0, 0, 5] ! (2 * 4 + 1) = (32::int)
   \<and> sum_in_order (map (\<lambda>k. [1, 2, 3, 4, 5, 6, 7, 8, 9, 10, 11, 12, 13, 14, 15, 16] ! (k * 4 + 1)
             * [1, 0, 2, 0, 0, 1, 0, 3, 1, 1, 1, 1, 0, 0, 0, 5] ! (2 * 4 + k)) [0..<4]) = (32::int)"
  using mat4mult_is_matrix_product
    [of 2 1 "[1, 2, 3, 4, 5, 6, 7, 8, 9, 10, 11, 12, 13, 14, 15, 16::int]"
        "[1, 0, 2, 0, 0, 1, 0, 3, 1, 1, 1, 1, 0, 0, 0, 5]"]
  by (simp add: sum_in_order_4)


section \<open>Exact arithmetic: the identity and the translations\<close>

lemma list16:
  "length (M::'a list) = 16 \<Longrightarrow>
   M = [M ! 0, M ! 1, M ! 2, M ! 3, M ! 4, M ! 5, M ! 6, M ! 7,
        M ! 8, M ! 9, M ! 10, M ! 11, M ! 12, M ! 13, M ! 14, M ! 15]"
  by (simp add: numeral_eq_Suc length_Suc_conv) (elim exE conjE, simp)

lemma mat4mult_identity_left:
  fixes M :: "'a::semiring_1 list"
  assumes "length M = 16"
  shows "mat4mult mat4identity M = M"
proof -
  have "mat4mult mat4identity M =
    [M ! 0, M ! 1, M ! 2, M ! 3, M ! 4, M ! 5, M ! 6, M ! 7,
     M ! 8, M ! 9, M ! 10, M ! 11, M ! 12, M ! 13, M ! 14, M ! 15]"
    by (simp add: mat4mult_def mat4identity_def)
  then show ?thesis using list16[OF assms] by simp
qed

lemma mat4mult_identity_right:
  fixes M :: "'a::semiring_1 list"
  assumes "length M = 16"
  shows "mat4mult M mat4identity = M"
proof -
  have "mat4mult M mat4identity =
    [M ! 0, M ! 1, M ! 2, M ! 3, M ! 4, M ! 5, M ! 6, M ! 7,
     M ! 8, M ! 9, M ! 10, M ! 11, M ! 12, M ! 13, M ! 14, M ! 15]"
    by (simp add: mat4mult_def mat4identity_def)
  then show ?thesis using list16[OF assms] by simp
qed

lemma mat4mult_affine_exact:
  fixes A B :: "'a::semiring_1 list"
  assumes "affine A" and "affine B"
  shows "affine (mat4mult A B)"
  using assms by (simp add: affine_def mat4mult_def)

lemma mat4translate_add_exact:
  fixes a b c d e f :: "'a::comm_semiring_1"
  shows "mat4mult (mat4translate a b c) (mat4translate d e f)
       = mat4translate (a + d) (b + e) (c + f)"
  by (simp add: mat4mult_def mat4translate_def add.commute)


lemma all16:
  assumes "length M = 16" and "\<forall>x\<in>set M. P x"
  shows "P (M ! 0) \<and> P (M ! 1) \<and> P (M ! 2) \<and> P (M ! 3) \<and> P (M ! 4) \<and> P (M ! 5)
       \<and> P (M ! 6) \<and> P (M ! 7) \<and> P (M ! 8) \<and> P (M ! 9) \<and> P (M ! 10) \<and> P (M ! 11)
       \<and> P (M ! 12) \<and> P (M ! 13) \<and> P (M ! 14) \<and> P (M ! 15)"
  using assms by simp

lemma affine_rotations:
  "affine (mat4rotx angle) \<and> affine (mat4roty angle) \<and> affine (mat4rotz angle)"
  by (simp add: affine_def mat4rotx_def mat4roty_def mat4rotz_def)

lemma affine_mat4translate: "affine (mat4translate x y (z::'a::{zero,one}))"
  by (simp add: affine_def mat4translate_def)

lemma affine_frame: "affine (MV_trex (frame cx)) \<and> affine (MV_sphere (frame cx))"
  by (simp add: frame_def Let_def mat4mult_affine_exact affine_rotations affine_mat4translate)


section \<open>The model-view matrices of a frame\<close>

lemma keyOrientation_zero: "mat4mult (mat4rotz (- 0)) (mat4rotx (- 0)) = mat4identity"
  by (simp add: mat4mult_def mat4rotz_def mat4rotx_def mat4identity_def)

text \<open>
  Claim C2. In every frame the model-view matrix of the first object is
  \<open>translate(0,0,-3) * rotateY(1) * rotateX(pi/10) * keyOrientation\<close> with
  \<open>keyOrientation = rotateZ(-phiKey) * rotateX(-thetaKey)\<close>, multiplied from left to right;
  for \<open>phiKey = 0\<close> and \<open>thetaKey = 0\<close> it is
  \<open>translate(0,0,-3) * rotateY(1) * rotateX(pi/10) * identity()\<close>, the array of sixteen
  values written out below.
\<close>

theorem frame_MV_trex:
  "MV_trex (frame cx) =
     mat4mult (mat4mult (mat4mult (mat4translate 0 0 (- 3)) (mat4roty 1)) (mat4rotx (pi / 10)))
              (mat4mult (mat4rotz (- phiKey cx)) (mat4rotx (- thetaKey cx)))
   \<and> MV_trex (frame (cx\<lparr>phiKey := 0, thetaKey := 0\<rparr>)) =
     mat4mult (mat4mult (mat4mult (mat4translate 0 0 (- 3)) (mat4roty 1)) (mat4rotx (pi / 10)))
              mat4identity
   \<and> MV_trex (frame (cx\<lparr>phiKey := 0, thetaKey := 0\<rparr>)) =
     [ cos 1, 0, sin 1, 0,
       - (sin (pi / 10) * sin 1), cos (pi / 10), sin (pi / 10) * cos 1, 0,
       - (cos (pi / 10) * sin 1), - sin (pi / 10), cos (pi / 10) * cos 1, 0,
       0, 0, - 3, 1 ]"
proof -
  have "mat4mult (mat4mult (mat4mult (mat4translate 0 0 (- 3)) (mat4roty 1)) (mat4rotx (pi / 10)))
              mat4identity =
     [ cos 1, 0, sin 1, 0,
       - (sin (pi / 10) * sin 1), cos (pi / 10), sin (pi / 10) * cos 1, 0,
       - (cos (pi / 10) * sin 1), - sin (pi / 10), cos (pi / 10) * cos 1, 0,
       0, 0, - 3, 1 ]"
    by (simp add: mat4mult_def mat4translate_def mat4roty_def mat4rotx_def mat4identity_def
          mult.commute)
  then show ?thesis using keyOrientation_zero by (simp add: frame_def Let_def)
qed

text \<open>
  Claim C3. In a frame at time \<open>t\<close> the model-view matrix of the orbiting object is
  \<open>translate(0,0,-3) * rotateY(t/4*pi) * rotateX(pi/20) * orbitMatrix\<close> with
  \<open>orbitMatrix = rotateY(t/4*pi) * translate(0,0,0.8) * rotateX(pi/20)\<close>.
\<close>

theorem frame_MV_sphere:
  "MV_sphere (frame cx) =
     mat4mult (mat4mult (mat4mult (mat4translate 0 0 (- 3)) (mat4roty (time cx / 4 * pi)))
                        (mat4rotx (pi / 20)))
              (mat4mult (mat4mult (mat4roty (time cx / 4 * pi)) (mat4translate 0 0 (8 / 10)))
                        (mat4rotx (pi / 20)))"
  by (simp add: frame_def Let_def)


section \<open>The perspective projection\<close>

text \<open>
  Claim C4. For \<open>far > near > 0\<close> and \<open>0 < fov < pi\<close> the projection maps the point on
  the axis at \<open>z = -near\<close> to \<open>z' = -1\<close> after the perspective divide, and the one at
  \<open>z = -far\<close> to \<open>z' = 1\<close>; so \<open>mat4perspective(pi/2, 1, 1, 2)\<close> maps \<open>z = -1\<close> to
  \<open>-1\<close> and \<open>z = -2\<close> to \<open>1\<close>.
\<close>

theorem mat4perspective_near_far:
  assumes "0 < znear" and "znear < zfar" and "0 < vfov" and "vfov < pi"
  shows "perspective_divide
           (mat4apply (mat4perspective vfov aspect znear zfar) [0, 0, - znear, 1]) ! 2 = - 1
       \<and> perspective_divide
           (mat4apply (mat4perspective vfov aspect znear zfar) [0, 0, - zfar, 1]) ! 2 = 1"
proof -
  have d: "zfar - znear \<noteq> 0" using assms by simp
  have n: "znear \<noteq> 0" and f: "zfar \<noteq> 0" using assms by simp_all
  have "(zfar + znear) / (zfar - znear) * znear - 2 * znear * zfar / (zfar - znear)
      = (- znear) * (zfar - znear) / (zfar - znear)"
    by (simp add: diff_divide_distrib[symmetric] algebra_simps)
  then have zn:
    "(zfar + znear) / (zfar - znear) * znear - 2 * znear * zfar / (zfar - znear) = - znear"
    using d by simp
  have "(zfar + znear) / (zfar - znear) * zfar - 2 * znear * zfar / (zfar - znear)
      = zfar * (zfar - znear) / (zfar - znear)"
    by (simp add: diff_divide_distrib[symmetric] algebra_simps)
  then have zf:
    "(zfar + znear) / (zfar - znear) * zfar - 2 * znear * zfar / (zfar - znear) = zfar"
    using d by simp
  show ?thesis using n f zn zf
    by (simp add: perspective_divide_def mat4apply_def mat4perspective_def Let_def)
qed

theorem mat4perspective_near_far_witness:
  "(0::real) < 1 \<and> (1::real) < 2 \<and> 0 < pi / 2 \<and> pi / 2 < pi
   \<and> perspective_divide (mat4apply (mat4perspective (pi / 2) 1 1 2) [0, 0, - 1, 1]) ! 2 = - 1
   \<and> perspective_divide (mat4apply (mat4perspective (pi / 2) 1 1 2) [0, 0, - 2, 1]) ! 2 = 1"
  using mat4perspective_near_far[of 1 2 "pi / 2" 1] by simp

lemma mat4perspective_aspect_only_first:
  "mat4perspective vfov a1 znear zfar ! 0 = 1 / tan (vfov / 2) / a1
   \<and> tl (mat4perspective vfov a1 znear zfar) = tl (mat4perspective vfov a2 znear zfar)"
  by (simp add: mat4perspective_def Let_def)

text \<open>
  Claim C5, as the source has it. The frame's projection is
  \<open>mat4perspective(pi/3, 1, 0.1, 100)\<close> whatever the size of the window: the aspect ratio
  passed is the constant 1, so the frames of two windows of different shape have the same
  projection and the same model-view matrices. In \<open>mat4perspective\<close> itself the aspect
  ratio enters the entry at index 0 only: two projections that differ in the aspect ratio
  alone agree at every other index.
\<close>

theorem frame_projection_fixed_aspect:
  "P_projection (frame cx) = mat4perspective (pi / 3) 1 (1 / 10) 100
   \<and> P_projection (frame (cx\<lparr>width := w, height := h\<rparr>)) = P_projection (frame cx)
   \<and> MV_trex (frame (cx\<lparr>width := w, height := h\<rparr>)) = MV_trex (frame cx)
   \<and> MV_sphere (frame (cx\<lparr>width := w, height := h\<rparr>)) = MV_sphere (frame cx)
   \<and> mat4perspective vfov a1 znear zfar ! 0 = 1 / tan (vfov / 2) / a1
   \<and> tl (mat4perspective vfov a1 znear zfar) = tl (mat4perspective vfov a2 znear zfar)"
  by (simp add: frame_def mat4perspective_def Let_def)

text \<open>
  The claim as stated fails: in a window of 800 by 400 pixels the aspect ratio is 2, and
  the projection of the frame is not the one derived from it.
\<close>

theorem frame_projection_ignores_aspect:
  "P_projection (frame \<lparr> time = 0, phiKey = 0, thetaKey = 0, phiMouse = 0, thetaMouse = 0,
                          width = 800, height = 400 \<rparr>)
     \<noteq> mat4perspective (pi / 3) (800 / 400) (1 / 10) 100"
proof -
  have "tan (pi / 6) = 1 / sqrt 3" by (rule tan_30)
  then have "1 / tan (pi / 3 / 2) = sqrt 3" by simp
  then have "mat4perspective (pi / 3) 1 (1 / 10) 100 ! 0
           \<noteq> mat4perspective (pi / 3) (800 / 400) (1 / 10) 100 ! 0"
    by (simp add: mat4perspective_def Let_def)
  then show ?thesis by (auto simp add: frame_def Let_def)
qed


section \<open>Rotation about z and translation, applied to vectors\<close>

text \<open>
  Claim C7. For every angle \<open>theta\<close>, \<open>mat4rotz theta\<close> applied to the column vector
  \<open>(1, 0, 0, 1)\<close> gives \<open>(cos theta, sin theta, 0, 1)\<close>: of the two sign conventions
  this is the one the source implements, and not the mirrored one: a quarter turn takes
  the x axis to \<open>(0, 1, 0, 1)\<close>.
\<close>

theorem mat4rotz_unit_x:
  "mat4apply (mat4rotz theta) [1, 0, 0, 1] = [cos theta, sin theta, 0, 1]
   \<and> mat4apply (mat4rotz (pi / 2)) [1, 0, 0, 1] = [0, 1, 0, 1]
   \<and> mat4apply (mat4rotz (pi / 2)) [1, 0, 0, 1] \<noteq> [cos (pi / 2), - sin (pi / 2), 0, 1]"
  by (simp add: mat4apply_def mat4rotz_def)

text \<open>
  Claim C8. \<open>mat4translate x y z\<close> is the identity matrix with \<open>x\<close>, \<open>y\<close>, \<open>z\<close> at the
  indices 12, 13 and 14; applied to \<open>(0, 0, 0, 1)\<close> it gives \<open>(x, y, z, 1)\<close>, applied to
  \<open>(a, b, c, w)\<close> it gives \<open>(a + w * x, b + w * y, c + w * z, w)\<close>, and a direction
  (\<open>w = 0\<close>) is left as it is.
\<close>

theorem mat4translate_apply:
  fixes x y z a b c w :: "'a::comm_semiring_1"
  shows "mat4translate x y z = mat4identity[12 := x, 13 := y, 14 := z]
    \<and> mat4apply (mat4translate x y z) [0, 0, 0, 1] = [x, y, z, 1]
    \<and> mat4apply (mat4translate x y z) [a, b, c, w] = [a + w * x, b + w * y, c + w * z, w]
    \<and> mat4apply (mat4translate x y z) [a, b, c, 0] = [a, b, c, 0]"
  by (simp add: mat4translate_def mat4identity_def mat4apply_def mult.commute)



section \<open>Rounding and the binary32 operations\<close>

lemma bitlength_le_iff: "bitlength m \<le> n \<longleftrightarrow> m < 2 ^ n"
proof (induction m arbitrary: n rule: bitlength.induct)
  case (1 m)
  show ?case
  proof (cases "m = 0")
    case True
    then show ?thesis by (simp add: bitlength.simps)
  next
    case False
    then have bl: "bitlength m = Suc (bitlength (m div 2))"
      by (subst bitlength.simps) simp
    show ?thesis
    proof (cases n)
      case 0
      with False bl show ?thesis by simp
    next
      case (Suc n')
      have "bitlength (m div 2) \<le> n' \<longleftrightarrow> m div 2 < 2 ^ n'"
        using "1.IH"[OF False] .
      also have "\<dots> \<longleftrightarrow> m < 2 ^ Suc n'" by auto
      finally show ?thesis using bl Suc by simp
    qed
  qed
qed

lemma bitlength_shift: "0 < m \<Longrightarrow> bitlength (m * 2 ^ j) = bitlength m + j"
proof (induction j)
  case 0
  then show ?case by simp
next
  case (Suc j)
  have "bitlength (m * 2 ^ Suc j) = Suc (bitlength (m * 2 ^ Suc j div 2))"
    using Suc.prems by (subst bitlength.simps) simp
  also have "m * 2 ^ Suc j div 2 = m * 2 ^ j" by simp
  finally show ?case using Suc by simp
qed

lemma bitlength_normal: "2 ^ 23 \<le> m \<Longrightarrow> m < 2 ^ 24 \<Longrightarrow> bitlength m = 24"
proof -
  assume a: "2 ^ 23 \<le> m" "m < 2 ^ 24"
  have "bitlength m \<le> 24" using a(2) bitlength_le_iff[of m 24] by simp
  moreover have "\<not> bitlength m \<le> 23" using a(1) bitlength_le_iff[of m 23] by simp
  ultimately show ?thesis by simp
qed

lemma bitlength_subnormal: "m < 2 ^ 24 \<Longrightarrow> bitlength m \<le> 24"
  using bitlength_le_iff[of m 24] by simp

text \<open>
  Rounding leaves a number of the format as it is, however its mantissa and exponent are
  written.
\<close>

lemma round32_exact:
  assumes "finite32 (Finite s m e)"
  shows "round32 s (m * 2 ^ j) (e - int j) = Finite s m e"
proof (cases "m = 0")
  case True
  with assms show ?thesis by (simp add: round32_def)
next
  case False
  then have pos: "0 < m" by simp
  have m24: "m < 2 ^ 24" using assms by simp
  have e_hi: "e \<le> 104" and e_lo: "- 149 \<le> e" using assms by auto
  have ex: "max (e - int j + int (bitlength (m * 2 ^ j)) - 24) (- 149) = e"
  proof (cases "e = - 149")
    case True
    then show ?thesis using bitlength_subnormal[OF m24] by (simp add: bitlength_shift[OF pos])
  next
    case False
    then have "2 ^ 23 \<le> m" using assms by simp
    then have "bitlength m = 24" using m24 by (rule bitlength_normal)
    then show ?thesis using e_lo by (simp add: bitlength_shift[OF pos])
  qed
  have pk: "pack32 s m e = Finite s m e" using m24 e_hi by (simp add: pack32_def)
  show ?thesis
  proof (cases j)
    case 0
    then show ?thesis using False ex pk by (simp add: round32_def Let_def)
  next
    case (Suc j')
    then have "\<not> e \<le> e - int j" by simp
    moreover have "nat (e - (e - int j)) = j" by simp
    ultimately show ?thesis using False ex pk Suc
      by (simp add: round32_def Let_def del: power_Suc)
  qed
qed

text \<open>
  Rounding gives an encoding of the format or an infinity: the operations below stay
  inside the format.
\<close>

lemma bitlength_lower: "0 < m \<Longrightarrow> 2 ^ (bitlength m - 1) \<le> m"
proof -
  assume pos: "0 < m"
  have "\<not> bitlength m \<le> bitlength m - 1"
  proof -
    have "bitlength m \<noteq> 0" using pos by (subst bitlength.simps) simp
    then show ?thesis by simp
  qed
  then show ?thesis using bitlength_le_iff[of m "bitlength m - 1"] by simp
qed

lemma bitlength_upper: "m < 2 ^ bitlength m"
  using bitlength_le_iff[of m "bitlength m"] by simp

lemma pack32_canonical:
  assumes "m \<le> 2 ^ 24" and "- 149 \<le> e" and "e = - 149 \<or> 2 ^ 23 \<le> m"
  shows "pack32 s m e = Infinity s \<or> finite32 (pack32 s m e)"
  using assms by (auto simp add: pack32_def)

lemma round32_unfold:
  assumes "m \<noteq> 0" and "e' = max (e + int (bitlength m) - 24) (- 149)"
  shows "round32 s m e =
    (if e' \<le> e then pack32 s (m * 2 ^ nat (e - e')) e'
     else pack32 s
       (if 2 ^ (nat (e' - e) - 1) < m mod 2 ^ nat (e' - e)
           \<or> (m mod 2 ^ nat (e' - e) = 2 ^ (nat (e' - e) - 1) \<and> odd (m div 2 ^ nat (e' - e)))
        then m div 2 ^ nat (e' - e) + 1 else m div 2 ^ nat (e' - e)) e')"
  using assms by (simp add: round32_def Let_def)

lemma round32_canonical: "round32 s m e = Infinity s \<or> finite32 (round32 s m e)"
proof (cases "m = 0")
  case True
  then show ?thesis by (simp add: round32_def)
next
  case False
  then have pos: "0 < m" by simp
  define k where "k = bitlength m"
  define e' where "e' = max (e + int k - 24) (- 149)"
  have lo: "- 149 \<le> e'" by (simp add: e'_def)
  have e'_eq: "e' = max (e + int (bitlength m) - 24) (- 149)" by (simp add: e'_def k_def)
  note unfold = round32_unfold[OF False e'_eq, of s]
  have kpos: "0 < k" using pos unfolding k_def by (subst bitlength.simps) simp
  have m_up: "m < 2 ^ k" unfolding k_def by (rule bitlength_upper)
  have m_lo: "2 ^ (k - 1) \<le> m" unfolding k_def using pos by (rule bitlength_lower)
  show ?thesis
  proof (cases "e' \<le> e")
    case True
    define j where "j = nat (e - e')"
    have r: "round32 s m e = pack32 s (m * 2 ^ j) e'"
      using unfold True by (simp add: j_def)
    have "bitlength (m * 2 ^ j) = k + j" using pos by (simp add: bitlength_shift k_def)
    moreover have "int k + int j \<le> 24" using True by (simp add: j_def e'_def)
    ultimately have "bitlength (m * 2 ^ j) \<le> 24" by simp
    then have up: "m * 2 ^ j < 2 ^ 24" by (simp add: bitlength_le_iff)
    have norm: "e' = - 149 \<or> 2 ^ 23 \<le> m * 2 ^ j"
    proof (cases "e' = - 149")
      case False
      then have "e' = e + int k - 24" by (simp add: e'_def max_def split: if_splits)
      then have "k + j = 24" using True by (simp add: j_def)
      then have "\<not> bitlength (m * 2 ^ j) \<le> 23"
        using \<open>bitlength (m * 2 ^ j) = k + j\<close> by simp
      then show ?thesis by (simp add: bitlength_le_iff)
    qed simp
    show ?thesis unfolding r using up lo norm by (intro pack32_canonical) simp_all
  next
    case False
    define d where "d = nat (e' - e)"
    define q where "q = m div 2 ^ d"
    define q' where "q' = (if 2 ^ (d - 1) < m mod 2 ^ d \<or> (m mod 2 ^ d = 2 ^ (d - 1) \<and> odd q)
                            then q + 1 else q)"
    have r: "round32 s m e = pack32 s q' e'"
      using unfold False by (simp add: d_def q_def q'_def)
    have "e + int k - 24 \<le> e'" by (simp add: e'_def)
    then have dk: "int k \<le> int d + 24" using False by (simp add: d_def)
    have "m < 2 ^ (d + 24)"
    proof -
      have le: "(2::nat) ^ k \<le> 2 ^ (d + 24)" using dk by (intro power_increasing) simp_all
      show ?thesis by (rule less_le_trans[OF m_up le])
    qed
    then have "m < 2 ^ 24 * 2 ^ d" by (simp add: power_add mult.commute)
    then have "q < 2 ^ 24" unfolding q_def by (simp add: less_mult_imp_div_less)
    then have up: "q' \<le> 2 ^ 24" by (simp add: q'_def)
    have norm: "e' = - 149 \<or> 2 ^ 23 \<le> q'"
    proof (cases "e' = - 149")
      case False
      then have "e' = e + int k - 24" by (simp add: e'_def max_def split: if_splits)
      then have kd: "k = d + 24" using \<open>\<not> e' \<le> e\<close> by (simp add: d_def)
      then have "2 ^ 23 * 2 ^ d \<le> m" using m_lo by (simp add: power_add mult.commute)
      then have "2 ^ 23 \<le> q" unfolding q_def by (simp add: less_eq_div_iff_mult_less_eq)
      then show ?thesis by (simp add: q'_def)
    qed simp
    show ?thesis unfolding r using up lo norm by (intro pack32_canonical) simp_all
  qed
qed

text \<open>
  A product or a sum of two finite floats is a finite float or, on overflow, an infinity;
  it is never a NaN.
\<close>

lemma times_finite32:
  "finite32 x \<Longrightarrow> finite32 y \<Longrightarrow> finite32 (x * y) \<or> (\<exists>s. x * y = Infinity s)"
  using round32_canonical by (cases x; cases y) auto

lemma plus_finite32:
  "finite32 x \<Longrightarrow> finite32 y \<Longrightarrow> finite32 (x + y) \<or> (\<exists>s. x + y = Infinity s)"
  using round32_canonical by (cases x; cases y) (auto simp add: Let_def)

lemma zero32_finite: "zero32 z \<Longrightarrow> finite32 z"
  by (cases z) simp_all

lemma finite32_zero: "finite32 (0::f32)" and finite32_one: "finite32 (1::f32)"
  by (simp_all add: zero_f32_def one_f32_def)

lemma zero32_zero: "zero32 (0::f32)"
  by (simp add: zero_f32_def)

lemma times_one_left: "finite32 x \<Longrightarrow> 1 * x = x"
proof (cases x)
  case (Finite s m e)
  assume "finite32 x"
  then have "round32 s (m * 2 ^ 23) (e - int 23) = Finite s m e"
    unfolding Finite by (rule round32_exact)
  then show ?thesis by (simp add: Finite one_f32_def mult.commute)
qed simp_all

lemma times_one_right: "finite32 x \<Longrightarrow> x * 1 = x"
proof (cases x)
  case (Finite s m e)
  assume "finite32 x"
  then have "round32 s (m * 2 ^ 23) (e - int 23) = Finite s m e"
    unfolding Finite by (rule round32_exact)
  then show ?thesis by (simp add: Finite one_f32_def)
qed simp_all

lemma times_zero_left: "zero32 z \<Longrightarrow> finite32 x \<Longrightarrow> zero32 (z * x)"
  by (cases z; cases x) (simp_all add: round32_def)

lemma times_zero_right: "finite32 x \<Longrightarrow> zero32 z \<Longrightarrow> zero32 (x * z)"
  by (cases z; cases x) (simp_all add: round32_def)

lemma plus_zero_zero: "zero32 a \<Longrightarrow> zero32 b \<Longrightarrow> zero32 (a + b)"
  by (cases a; cases b) (simp_all add: signed_def Let_def)

lemma signed_0: "signed s 0 = 0"
  by (simp add: signed_def)

lemma signed_eq_0_iff: "signed s n = 0 \<longleftrightarrow> n = 0"
  by (simp add: signed_def)

lemma signed_less_0_iff: "signed s n < 0 \<longleftrightarrow> s \<and> 0 < n"
  by (simp add: signed_def)

lemma nat_abs_signed: "nat \<bar>signed s n\<bar> = n"
  by (simp add: signed_def)

lemma plus_zero_right:
  assumes "finite32 x" and "zero32 z"
  shows "same32 (x + z) x"
proof -
  obtain s m e where x: "x = Finite s m e" using assms(1) by (cases x) simp_all
  obtain s0 where z: "z = Finite s0 0 (- 149)" using assms(2) by (cases z) simp_all
  have lo: "- 149 \<le> e" using assms(1) x by auto
  show ?thesis
  proof (cases "m = 0")
    case True
    with assms x z show ?thesis by (simp add: same32_def signed_def Let_def)
  next
    case False
    have "round32 s (m * 2 ^ nat (e + 149)) (e - int (nat (e + 149))) = Finite s m e"
      using assms(1) unfolding x by (rule round32_exact)
    moreover have "e - int (nat (e + 149)) = - 149" using lo by simp
    ultimately have "round32 s (m * 2 ^ nat (e + 149)) (- 149) = Finite s m e" by simp
    moreover have "min e (- 149) = - 149" using lo by simp
    moreover have "e - - 149 = e + 149" by simp
    ultimately have "x + z = x" using False
      by (simp add: x z Let_def signed_0 signed_eq_0_iff signed_less_0_iff nat_abs_signed
               del: min.absorb2 min.absorb4)
    then show ?thesis using assms(1) x by (simp add: same32_def)
  qed
qed

lemma plus_commute32: "x + y = (y + x :: f32)"
  by (cases x; cases y) (auto simp add: Let_def min.commute add.commute)

lemma plus_zero_left: "zero32 z \<Longrightarrow> finite32 x \<Longrightarrow> same32 (z + x) x"
  using plus_zero_right[of x z] by (simp add: plus_commute32)

lemma same32_zero32: "same32 y x \<Longrightarrow> zero32 x \<Longrightarrow> zero32 y"
  by (cases x; cases y) (auto simp add: same32_def)

lemma same32_cases: "same32 y x \<Longrightarrow> y = x \<or> (zero32 y \<and> zero32 x)"
  by (cases x; cases y) (auto simp add: same32_def)

lemma same32_refl: "finite32 x \<Longrightarrow> same32 x x"
  by (cases x) (simp_all add: same32_def)

lemma same32_plus_zero_right:
  assumes "same32 y x" and "zero32 z"
  shows "same32 (y + z) x"
proof -
  have fy: "finite32 y" and fx: "finite32 x" using assms(1) by (simp_all add: same32_def)
  from same32_cases[OF assms(1)] show ?thesis
  proof
    assume "y = x"
    then show ?thesis using plus_zero_right[OF fx assms(2)] by simp
  next
    assume zz: "zero32 y \<and> zero32 x"
    then have "zero32 (y + z)" using assms(2) by (simp add: plus_zero_zero)
    then show ?thesis using zz by (cases "y + z"; cases x) (simp_all add: same32_def)
  qed
qed

lemma same32_plus_zero_left: "zero32 z \<Longrightarrow> same32 y x \<Longrightarrow> same32 (z + y) x"
  using same32_plus_zero_right[of y x z] by (simp add: plus_commute32)

lemma round32_not_NaN: "round32 s m e \<noteq> NaN"
  by (simp add: round32_def pack32_def Let_def)

lemma eq32_refl: "x \<noteq> NaN \<Longrightarrow> eq32 x x"
  by (cases x) simp_all

lemma plus_finite_not_NaN: "finite32 a \<Longrightarrow> finite32 d \<Longrightarrow> a + d \<noteq> NaN"
  by (cases a; cases d) (simp_all add: Let_def round32_not_NaN)

lemma same32_plus_cong:
  assumes "same32 y d" and "finite32 a"
  shows "eq32 (y + a) (d + a)"
proof -
  have fy: "finite32 y" and fd: "finite32 d" using assms(1) by (simp_all add: same32_def)
  from same32_cases[OF assms(1)] show ?thesis
  proof
    assume "y = d"
    then show ?thesis using plus_finite_not_NaN[OF fd assms(2)] by (simp add: eq32_refl)
  next
    assume zz: "zero32 y \<and> zero32 d"
    have "same32 (y + a) a" using zz assms(2) by (simp add: plus_zero_left)
    moreover have "same32 (d + a) a" using zz assms(2) by (simp add: plus_zero_left)
    ultimately show ?thesis
      by (cases "y + a"; cases "d + a"; cases a) (auto simp add: same32_def)
  qed
qed

lemma same32_eq32: "same32 x y \<Longrightarrow> eq32 x y"
  by (simp add: same32_def)

lemma sum4_zero32:
  "zero32 p \<Longrightarrow> zero32 q \<Longrightarrow> zero32 r \<Longrightarrow> zero32 t \<Longrightarrow> zero32 (p + q + r + t)"
  by (simp add: plus_zero_zero)

lemma sum4_pick0:
  "finite32 x \<Longrightarrow> zero32 p \<Longrightarrow> zero32 q \<Longrightarrow> zero32 r \<Longrightarrow> eq32 (x + p + q + r) x"
  by (intro same32_eq32 same32_plus_zero_right same32_refl)

lemma sum4_pick1:
  "zero32 p \<Longrightarrow> finite32 x \<Longrightarrow> zero32 q \<Longrightarrow> zero32 r \<Longrightarrow> eq32 (p + x + q + r) x"
  by (intro same32_eq32 same32_plus_zero_right plus_zero_left)

lemma sum4_pick2:
  "zero32 p \<Longrightarrow> zero32 q \<Longrightarrow> finite32 x \<Longrightarrow> zero32 r \<Longrightarrow> eq32 (p + q + x + r) x"
  by (intro same32_eq32 same32_plus_zero_right plus_zero_left plus_zero_zero)

lemma sum4_pick3:
  "zero32 p \<Longrightarrow> zero32 q \<Longrightarrow> zero32 r \<Longrightarrow> finite32 x \<Longrightarrow> eq32 (p + q + r + x) x"
  by (intro same32_eq32 plus_zero_left plus_zero_zero)

lemmas f32_simps = times_one_left times_one_right times_zero_left times_zero_right
  zero32_zero finite32_zero finite32_one sum4_zero32 sum4_pick0 sum4_pick1 sum4_pick2 sum4_pick3


lemma bitlength_0: "bitlength 0 = 0"
  by (simp add: bitlength.simps)

lemma bitlength_pos: "0 < n \<Longrightarrow> bitlength n = Suc (bitlength (n div 2))"
  by (subst bitlength.simps) simp

lemma eq32_zero_zero32: "finite32 x \<Longrightarrow> eq32 x 0 \<Longrightarrow> zero32 x"
  by (cases x) (auto simp add: zero_f32_def)

lemma eq32_one: "finite32 x \<Longrightarrow> eq32 x 1 \<Longrightarrow> x = 1"
  by (cases x) (auto simp add: one_f32_def)

lemma zero32_eq32_zero: "zero32 x \<Longrightarrow> eq32 x 0"
  by (cases x) (auto simp add: zero_f32_def)


text \<open>
  Two finite values are equal under \<^verbatim>\<open>==\<close> exactly when they are the same bit pattern
  or both are zeros.
\<close>

lemma eq32_finite_iff:
  "finite32 x \<Longrightarrow> finite32 y \<Longrightarrow> eq32 x y \<longleftrightarrow> x = y \<or> (zero32 x \<and> zero32 y)"
  by (cases x; cases y) auto

lemmas f32_eval = bitlength_0 bitlength_pos round32_def pack32_def signed_def Let_def
  zero_f32_def one_f32_def


text \<open>
  The operations at some known values: \<open>0.1f + 0.2f\<close> and \<open>0.1f * 0.1f\<close> are rounded,
  \<open>16777216.0f + 1.0f\<close> is a tie that goes to the even neighbour below and
  \<open>16777216.0f + 3.0f\<close> one that goes to the even neighbour above, the largest finite
  number added to itself overflows, half of the smallest subnormal number is a tie that
  goes to zero, \<open>1.0f + - 1.0f\<close> is the positive zero and \<open>- 2.0f * 0.0f\<close> the negative
  one.
\<close>

lemma binary32_examples:
  "Finite False 13421773 (- 27) + Finite False 13421773 (- 26) = Finite False 10066330 (- 25)"
  "Finite False 13421773 (- 27) * Finite False 13421773 (- 27) = Finite False 10737419 (- 30)"
  "Finite False 8388608 1 + 1 = Finite False 8388608 1"
  "Finite False 8388608 1 + Finite False 12582912 (- 22) = Finite False 8388610 1"
  "Finite False 16777215 104 + Finite False 16777215 104 = Infinity False"
  "Finite False 1 (- 149) * Finite False 8388608 (- 24) = 0"
  "Finite False 3 (- 149) * Finite False 8388608 (- 24) = Finite False 2 (- 149)"
  "1 + - 1 = (0::f32)"
  "Finite True 8388608 (- 22) * 0 = - 0"
  by (simp_all add: f32_eval)


section \<open>The identity matrix in binary32\<close>

text \<open>
  Claim C6, as the source has it. For every matrix \<open>M\<close> of sixteen finite floats,
  \<open>mat4mult(mat4identity(), M) == M\<close> and \<open>mat4mult(M, mat4identity()) == M\<close> hold under
  the comparison \<^verbatim>\<open>==\<close> of floats, entry by entry, with no tolerance: every entry of
  the product is the bit pattern of the entry of \<open>M\<close>, or both are zeros.
\<close>

theorem mat4mult_identity_binary32:
  assumes "length M = 16" and "list_all finite32 M"
  shows "list_all2 eq32 (mat4mult mat4identity M) M
       \<and> list_all2 eq32 (mat4mult M mat4identity) M"
proof -
  note fin = all16[OF assms(1) assms(2)[unfolded list_all_iff]]
  have "list_all2 eq32 (mat4mult mat4identity M)
     [M ! 0, M ! 1, M ! 2, M ! 3, M ! 4, M ! 5, M ! 6, M ! 7,
      M ! 8, M ! 9, M ! 10, M ! 11, M ! 12, M ! 13, M ! 14, M ! 15]"
    using fin by (simp add: mat4mult_def mat4identity_def f32_simps)
  moreover have "list_all2 eq32 (mat4mult M mat4identity)
     [M ! 0, M ! 1, M ! 2, M ! 3, M ! 4, M ! 5, M ! 6, M ! 7,
      M ! 8, M ! 9, M ! 10, M ! 11, M ! 12, M ! 13, M ! 14, M ! 15]"
    using fin by (simp add: mat4mult_def mat4identity_def f32_simps)
  ultimately show ?thesis using list16[OF assms(1)] by simp
qed

theorem mat4mult_identity_binary32_witness:
  "length [1, 0, 0, 0, 0, 1, 0, 0, 0, - 0, 1, 0, Finite False 12582912 (- 22), 0, - 1, 1 :: f32] = 16
   \<and> list_all finite32 [1, 0, 0, 0, 0, 1, 0, 0, 0, - 0, 1, 0, Finite False 12582912 (- 22), 0, - 1, 1]
   \<and> list_all2 eq32
        (mat4mult mat4identity
           [1, 0, 0, 0, 0, 1, 0, 0, 0, - 0, 1, 0, Finite False 12582912 (- 22), 0, - 1, 1])
        [1, 0, 0, 0, 0, 1, 0, 0, 0, - 0, 1, 0, Finite False 12582912 (- 22), 0, - 1, 1]
   \<and> list_all2 eq32
        (mat4mult [1, 0, 0, 0, 0, 1, 0, 0, 0, - 0, 1, 0, Finite False 12582912 (- 22), 0, - 1, 1]
           mat4identity)
        [1, 0, 0, 0, 0, 1, 0, 0, 0, - 0, 1, 0, Finite False 12582912 (- 22), 0, - 1, 1]"
  using mat4mult_identity_binary32
    [of "[1, 0, 0, 0, 0, 1, 0, 0, 0, - 0, 1, 0, Finite False 12582912 (- 22), 0, - 1, 1]"]
  by (simp add: zero_f32_def one_f32_def)

text \<open>
  The claim as stated fails twice. The array that \<^verbatim>\<open>mat4rotx(0.0f)\<close> returns has
  \<^verbatim>\<open>-sin(0.0f)\<close>, the negative zero, at index 9; its product with the identity has the
  positive zero there, so the two arrays are not the same bits. And the product of the
  identity with \<^verbatim>\<open>mat4scale(INFINITY)\<close> has NaN entries (\<open>0 * infinity\<close>), so that it
  is not even \<^verbatim>\<open>==\<close> to the matrix.
\<close>

theorem mat4mult_identity_not_bitwise:
  "mat4mult mat4identity [1, 0, 0, 0, 0, 1, 0, 0, 0, - 0, 1, 0, 0, 0, 0, 1]
     \<noteq> [1, 0, 0, 0, 0, 1, 0, 0, 0, - 0, 1, 0, 0, 0, 0, 1 :: f32]
   \<and> \<not> list_all2 eq32 (mat4mult mat4identity (mat4scale (Infinity False)))
                        (mat4scale (Infinity False))"
  by (simp add: mat4mult_def mat4identity_def mat4scale_def f32_eval)


section \<open>The bottom row of affine matrices\<close>

lemma mat4mult_affine32:
  assumes "length A = 16" and "list_all finite32 A"
    and "length B = 16" and "list_all finite32 B"
    and "affine32 A" and "affine32 B"
  shows "affine32 (mat4mult A B)"
proof -
  note fA = all16[OF assms(1) assms(2)[unfolded list_all_iff]]
  note fB = all16[OF assms(3) assms(4)[unfolded list_all_iff]]
  have zA: "zero32 (A ! 3)" "zero32 (A ! 7)" "zero32 (A ! 11)" and oA: "A ! 15 = 1"
    using assms(5) fA by (simp_all add: affine32_def eq32_zero_zero32 eq32_one)
  have zB: "zero32 (B ! 3)" "zero32 (B ! 7)" "zero32 (B ! 11)" and oB: "B ! 15 = 1"
    using assms(6) fB by (simp_all add: affine32_def eq32_zero_zero32 eq32_one)
  show ?thesis
    using fA fB zA zB by (simp add: affine32_def mat4mult_def oA oB f32_simps zero32_eq32_zero)
qed

lemma sum4_translation:
  assumes "finite32 d" and "zero32 p" and "zero32 q" and "finite32 a"
  shows "eq32 (d + p + q + a) (a + d)"
proof -
  have "same32 (d + p + q) d"
    using assms by (intro same32_plus_zero_right same32_refl)
  then have "eq32 (d + p + q + a) (d + a)" using assms(4) by (rule same32_plus_cong)
  then show ?thesis by (simp add: plus_commute32)
qed

lemma sum4_translation1:
  assumes "zero32 p" and "finite32 d" and "zero32 q" and "finite32 a"
  shows "eq32 (p + d + q + a) (a + d)"
proof -
  have "same32 (p + d + q) d"
    using assms by (intro same32_plus_zero_right plus_zero_left)
  then have "eq32 (p + d + q + a) (d + a)" using assms(4) by (rule same32_plus_cong)
  then show ?thesis by (simp add: plus_commute32)
qed

lemma sum4_translation2:
  assumes "zero32 p" and "zero32 q" and "finite32 d" and "finite32 a"
  shows "eq32 (p + q + d + a) (a + d)"
proof -
  have "same32 (p + q + d) d"
    using assms by (intro plus_zero_left plus_zero_zero)
  then have "eq32 (p + q + d + a) (d + a)" using assms(4) by (rule same32_plus_cong)
  then show ?thesis by (simp add: plus_commute32)
qed


text \<open>
  Claim C9, as the source has it. Every array that \<open>mat4identity\<close>, \<open>mat4rotx\<close>,
  \<open>mat4roty\<close>, \<open>mat4rotz\<close>, \<open>mat4scale\<close> or \<open>mat4translate\<close> returns has the bottom row
  \<open>(0, 0, 0, 1)\<close> at the indices 3, 7, 11 and 15, whatever the arguments. The product of
  two matrices with that bottom row has it again when the entries of both are finite
  floats, and so have the two model-view matrices of a frame.
\<close>

theorem bottom_row_preserved:
  "affine32 mat4identity \<and> affine32 (mat4scale s) \<and> affine32 (mat4translate x y z)
   \<and> affine (mat4rotx angle) \<and> affine (mat4roty angle) \<and> affine (mat4rotz angle)
   \<and> (length A = 16 \<and> list_all finite32 A \<and> length B = 16 \<and> list_all finite32 B
        \<and> affine32 A \<and> affine32 B \<longrightarrow> affine32 (mat4mult A B))
   \<and> affine (MV_trex (frame cx)) \<and> affine (MV_sphere (frame cx))"
proof -
  have constructors:
    "affine32 mat4identity \<and> affine32 (mat4scale s) \<and> affine32 (mat4translate x y z)"
    by (simp add: affine32_def mat4identity_def mat4scale_def mat4translate_def
          zero_f32_def one_f32_def)
  have product:
    "length A = 16 \<and> list_all finite32 A \<and> length B = 16 \<and> list_all finite32 B
       \<and> affine32 A \<and> affine32 B \<longrightarrow> affine32 (mat4mult A B)"
    using mat4mult_affine32 by blast
  from constructors product affine_rotations[of angle] affine_frame[of cx]
  show ?thesis by blast
qed

theorem bottom_row_preserved_witness:
  "length (mat4translate 1 (- 0) (- 1) :: f32 list) = 16
   \<and> list_all finite32 (mat4translate 1 (- 0) (- 1))
   \<and> length (mat4scale (Finite False 12582912 (- 22))) = 16
   \<and> list_all finite32 (mat4scale (Finite False 12582912 (- 22)))
   \<and> affine32 (mat4translate 1 (- 0) (- 1))
   \<and> affine32 (mat4scale (Finite False 12582912 (- 22)))
   \<and> affine32 (mat4mult (mat4translate 1 (- 0) (- 1)) (mat4scale (Finite False 12582912 (- 22))))"
  using bottom_row_preserved
    [of "Finite False 12582912 (- 22)" 1 "- 0" "- 1" 0
        "mat4translate 1 (- 0) (- 1)" "mat4scale (Finite False 12582912 (- 22))"]
  by (simp add: mat4translate_def mat4scale_def zero_f32_def one_f32_def)

text \<open>
  The claim as stated fails: \<^verbatim>\<open>mat4identity()\<close> and \<^verbatim>\<open>mat4scale(INFINITY)\<close> have the
  bottom row \<open>(0, 0, 0, 1)\<close>, and their product has a NaN at index 3.
\<close>

theorem bottom_row_lost_at_infinity:
  "affine32 mat4identity \<and> affine32 (mat4scale (Infinity False))
   \<and> \<not> affine32 (mat4mult mat4identity (mat4scale (Infinity False)))"
  by (simp add: affine32_def mat4mult_def mat4identity_def mat4scale_def f32_eval)


section \<open>The product of two translations in binary32\<close>

text \<open>
  Claim C10, as the source has it. For all finite floats \<open>a, b, c, d, e, f\<close>,
  \<open>mat4mult(mat4translate(a,b,c), mat4translate(d,e,f)) == mat4translate(a+d, b+e, c+f)\<close>
  holds under the comparison \<^verbatim>\<open>==\<close> of floats, entry by entry, with no tolerance.
\<close>

theorem mat4translate_add_binary32:
  assumes "finite32 a" and "finite32 b" and "finite32 c"
    and "finite32 d" and "finite32 e" and "finite32 f"
  shows "list_all2 eq32 (mat4mult (mat4translate a b c) (mat4translate d e f))
                        (mat4translate (a + d) (b + e) (c + f))"
  using assms
  by (simp add: mat4mult_def mat4translate_def f32_simps
        sum4_translation sum4_translation1 sum4_translation2)

theorem mat4translate_add_binary32_witness:
  "finite32 1 \<and> finite32 (- 0) \<and> finite32 (- 1)
   \<and> finite32 (Finite False 12582912 (- 22)) \<and> finite32 0 \<and> finite32 1
   \<and> list_all2 eq32
        (mat4mult (mat4translate 1 (- 0) (- 1))
                  (mat4translate (Finite False 12582912 (- 22)) 0 1))
        (mat4translate (1 + Finite False 12582912 (- 22)) (- 0 + 0) (- 1 + 1))"
  using mat4translate_add_binary32
    [of 1 "- 0" "- 1" "Finite False 12582912 (- 22)" 0 1]
  by (simp add: zero_f32_def one_f32_def)

text \<open>
  The claim as stated fails at \<open>a = infinity\<close>: the entry at index 0 of the product is
  \<open>1 * 1 + 0 * 0 + 0 * 0 + infinity * 0\<close>, a NaN, and not the 1 of the translation.
\<close>

theorem mat4translate_add_fails_at_infinity:
  "\<not> list_all2 eq32 (mat4mult (mat4translate (Infinity False) 0 0) (mat4translate 0 0 0))
                      (mat4translate (Infinity False + 0) (0 + 0) (0 + 0))"
  by (simp add: mat4mult_def mat4translate_def f32_eval)

end
